theory Spec2Isabelle
  imports Main
begin

section \<open>JavaScript values\<close>

text \<open>
  The adapter of \<^verbatim>\<open>src/adapter.js\<close> is dynamically typed: constraints and payloads are
  plain objects whose properties hold arbitrary values, and the code tests them for
  truthiness, with \<^verbatim>\<open>===\<close>, with \<^verbatim>\<open>in\<close> and with lodash's type predicates. The values
  are modelled by one datatype.

  \<^item> A number is an \<open>int\<close>: fractions, \<^verbatim>\<open>NaN\<close> and the infinities are not modelled.
  \<^item> A RegExp is its source text and the predicate that its \<^verbatim>\<open>test\<close> method computes on
    a string; flags (and with them the \<^verbatim>\<open>lastIndex\<close> state of a global RegExp) are not
    modelled.
  \<^item> An object is the association list of its own properties; the first binding of a
    key is the property's value.
  \<^item> A deferred value (a Promise) is described by how it settles: the time of settling,
    in milliseconds after the call of \<^verbatim>\<open>dispatch\<close>, and the value or the reason; or it
    never settles.
\<close>

datatype 'a future = Resolves int 'a | Rejects int 'a | Never

datatype jsval =
    JUndefined
  | JNull
  | JBool bool
  | JNum int
  | JStr string
  | JRegExp string "string \<Rightarrow> bool"
  | JArr "jsval list"
  | JObj "(string \<times> jsval) list"
  | JPromise "jsval future"

type_synonym obj = "(string \<times> jsval) list"

text \<open>Property read \<^verbatim>\<open>o.k\<close> on an object: \<^verbatim>\<open>undefined\<close> when the property is absent.\<close>

definition js_get :: "obj \<Rightarrow> string \<Rightarrow> jsval" where
  "js_get ob k = (case map_of ob k of None \<Rightarrow> JUndefined | Some v \<Rightarrow> v)"

text \<open>\<^verbatim>\<open>'k' in o\<close> on a plain object.\<close>

definition js_in :: "string \<Rightarrow> obj \<Rightarrow> bool" where
  "js_in k ob = (case map_of ob k of None \<Rightarrow> False | Some _ \<Rightarrow> True)"

text \<open>
  Property read \<^verbatim>\<open>v.k\<close> on a value that is neither \<^verbatim>\<open>undefined\<close> nor \<^verbatim>\<open>null\<close> (on
  those the read throws, which each caller writes out). Only own data properties of
  objects are modelled; the properties read by the adapter (\<^verbatim>\<open>type\<close>, \<^verbatim>\<open>code\<close>) are no
  built-in property of a primitive, an array, a RegExp or a Promise.
\<close>

fun js_member :: "jsval \<Rightarrow> string \<Rightarrow> jsval" where
  "js_member (JObj ob) k = js_get ob k"
| "js_member _ k = JUndefined"

fun is_nullish :: "jsval \<Rightarrow> bool" where
  "is_nullish JUndefined = True"
| "is_nullish JNull = True"
| "is_nullish _ = False"

text \<open>Truthiness, as \<^verbatim>\<open>if (v)\<close>, \<^verbatim>\<open>!v\<close> and \<^verbatim>\<open>&&\<close> test it.\<close>

fun js_truthy :: "jsval \<Rightarrow> bool" where
  "js_truthy JUndefined = False"
| "js_truthy JNull = False"
| "js_truthy (JBool b) = b"
| "js_truthy (JNum n) = (n \<noteq> 0)"
| "js_truthy (JStr s) = (s \<noteq> [])"
| "js_truthy _ = True"

text \<open>
  Strict equality \<^verbatim>\<open>===\<close>. Primitives are compared by value. Objects are compared by
  reference: the adapter only ever compares a value of the application (a constraint)
  with a value of the payload or with a string literal, which are never the same
  object, so two objects are unequal.
\<close>

fun strict_eq :: "jsval \<Rightarrow> jsval \<Rightarrow> bool" where
  "strict_eq JUndefined JUndefined = True"
| "strict_eq JNull JNull = True"
| "strict_eq (JBool a) (JBool b) = (a = b)"
| "strict_eq (JNum a) (JNum b) = (a = b)"
| "strict_eq (JStr a) (JStr b) = (a = b)"
| "strict_eq _ _ = False"

text \<open>lodash's \<^verbatim>\<open>isString\<close>, \<^verbatim>\<open>isRegExp\<close> and \<^verbatim>\<open>isPlainObject\<close>.\<close>

fun isString :: "jsval \<Rightarrow> bool" where
  "isString (JStr _) = True"
| "isString _ = False"

fun isRegExp :: "jsval \<Rightarrow> bool" where
  "isRegExp (JRegExp _ _) = True"
| "isRegExp _ = False"

fun isPlainObject :: "jsval \<Rightarrow> bool" where
  "isPlainObject (JObj _) = True"
| "isPlainObject _ = False"

text \<open>\<^verbatim>\<open>typeof v.then === 'function'\<close> for a value that is not nullish.\<close>

fun is_thenable :: "jsval \<Rightarrow> bool" where
  "is_thenable (JPromise _) = True"
| "is_thenable _ = False"

text \<open>
  \<^verbatim>\<open>ToString\<close>, which \<^verbatim>\<open>RegExp.prototype.test\<close> applies to its argument: decimal digits
  for a number (the exponent notation of integers from \<open>10\<^sup>2\<^sup>1\<close> on is not modelled), the
  elements joined by commas for an array (\<^verbatim>\<open>undefined\<close> and \<^verbatim>\<open>null\<close> elements as empty
  strings).
\<close>

fun digits :: "nat \<Rightarrow> string" where
  "digits n =
     (if n < 10 then [char_of (48 + n)]
      else digits (n div 10) @ [char_of (48 + n mod 10)])"

fun join_comma :: "string list \<Rightarrow> string" where
  "join_comma [] = []"
| "join_comma [s] = s"
| "join_comma (s # t # ss) = s @ '','' @ join_comma (t # ss)"

fun ToString :: "jsval \<Rightarrow> string" where
  "ToString JUndefined = ''undefined''"
| "ToString JNull = ''null''"
| "ToString (JBool b) = (if b then ''true'' else ''false'')"
| "ToString (JNum n) = (if n < 0 then ''-'' @ digits (nat (- n)) else digits (nat n))"
| "ToString (JStr s) = s"
| "ToString (JRegExp src _) = ''/'' @ src @ ''/''"
| "ToString (JArr xs) =
     join_comma (map (\<lambda>x. if is_nullish x then [] else ToString x) xs)"
| "ToString (JObj _) = ''[object Object]''"
| "ToString (JPromise _) = ''[object Promise]''"

text \<open>\<^verbatim>\<open>re.test(v)\<close>, called only where \<^verbatim>\<open>isRegExp(re)\<close> holds.\<close>

fun regexp_test :: "jsval \<Rightarrow> jsval \<Rightarrow> bool" where
  "regexp_test (JRegExp _ t) v = t (ToString v)"
| "regexp_test _ v = False"

text \<open>
  \<^verbatim>\<open>v[0]\<close> for a truthy value \<open>v\<close>: the first element of an array, the first character
  of a string, the property \<^verbatim>\<open>"0"\<close> of an object.
\<close>

fun js_first :: "jsval \<Rightarrow> jsval" where
  "js_first (JArr (x # _)) = x"
| "js_first (JStr (c # _)) = JStr [c]"
| "js_first (JObj ob) = js_get ob ''0''"
| "js_first _ = JUndefined"

section \<open>The adapter\<close>

text \<open>
  A handler is called as \<^verbatim>\<open>callbackFn.call(this, payload, respond)\<close>. It is modelled by
  what the call gives back to \<^verbatim>\<open>dispatch\<close>: it returns a value or throws one. Its
  arguments are the payload and whether \<^verbatim>\<open>respond\<close> is a function (\<open>True\<close>) or
  \<^verbatim>\<open>undefined\<close> (\<open>False\<close>). What a handler does besides (its own use of \<^verbatim>\<open>respond\<close>,
  for one) is not part of the model.
\<close>

datatype completion = Returns jsval | Throws jsval

type_synonym handler = "obj \<Rightarrow> bool \<Rightarrow> completion"

datatype error = TypeError string

record adapter =
  verificationToken :: string
  syncResponseTimeout :: int
  lateResponseFallbackEnabled :: bool
  callbacks :: "(obj \<times> handler) list"

subsection \<open>Matching\<close>

text \<open>
  The predicate that \<^verbatim>\<open>matchCallback\<close> hands to \<^verbatim>\<open>Array.prototype.find\<close> is a sequence
  of three guarded \<^verbatim>\<open>return false\<close> blocks followed by \<^verbatim>\<open>return true\<close>. Each block is a
  filter here (\<open>False\<close> where the block returns false), and \<open>matches\<close> runs them in the
  order of the source.
\<close>

definition callbackId_filter :: "obj \<Rightarrow> obj \<Rightarrow> bool" where
  "callbackId_filter constraints payload =
     (if js_truthy (js_get constraints ''callbackId'') then
        (if isString (js_get constraints ''callbackId'') \<and>
            \<not> strict_eq (js_get payload ''callback_id'') (js_get constraints ''callbackId'')
         then False
         else if isRegExp (js_get constraints ''callbackId'') \<and>
            \<not> regexp_test (js_get constraints ''callbackId'') (js_get payload ''callback_id'')
         then False
         else True)
      else True)"

definition type_filter :: "jsval \<Rightarrow> obj \<Rightarrow> bool" where
  "type_filter action constraints =
     (if js_truthy action \<and> js_truthy (js_get constraints ''type'') \<and>
         \<not> strict_eq (js_get constraints ''type'') (js_member action ''type'')
      then False else True)"

definition unfurl_filter :: "obj \<Rightarrow> obj \<Rightarrow> bool" where
  "unfurl_filter constraints payload =
     (if js_in ''unfurl'' constraints \<and>
         ((js_truthy (js_get constraints ''unfurl'') \<and>
           \<not> js_truthy (js_get payload ''is_app_unfurl'')) \<or>
          (\<not> js_truthy (js_get constraints ''unfurl'') \<and>
           js_truthy (js_get payload ''is_app_unfurl'')))
      then False else True)"

text \<open>\<^verbatim>\<open>const action = payload.actions && payload.actions[0]\<close>\<close>

definition first_action :: "obj \<Rightarrow> jsval" where
  "first_action payload =
     (if js_truthy (js_get payload ''actions'') then js_first (js_get payload ''actions'')
      else js_get payload ''actions'')"

definition matches :: "obj \<Rightarrow> obj \<Rightarrow> bool" where
  "matches constraints payload =
     (if \<not> callbackId_filter constraints payload then False
      else if \<not> type_filter (first_action payload) constraints then False
      else if \<not> unfurl_filter constraints payload then False
      else True)"

definition matchCallback :: "adapter \<Rightarrow> obj \<Rightarrow> (obj \<times> handler) option" where
  "matchCallback a payload =
     find (\<lambda>(constraints, _). matches constraints payload) (callbacks a)"

subsection \<open>The response race\<close>

text \<open>
  \<^verbatim>\<open>dispatch\<close> imports \<^verbatim>\<open>promiseTimeout\<close> and \<^verbatim>\<open>errorCodes\<close> from \<^verbatim>\<open>./util\<close>, a module
  of the repository whose source is not at hand. The error code is a parameter of the
  model (error codes are strings); the race is modelled from the specification.
\<close>

record errorCodes =
  PROMISE_TIMEOUT :: string

text \<open>An \<^verbatim>\<open>Error\<close> object is the object of its own properties.\<close>

definition timeout_error :: "errorCodes \<Rightarrow> jsval" where
  "timeout_error codes =
     JObj [(''message'', JStr ''Promise timed out''), (''code'', JStr (PROMISE_TIMEOUT codes))]"

definition thrown_TypeError :: jsval where
  "thrown_TypeError = JObj [(''name'', JStr ''TypeError'')]"

text \<open>
  Modelled from the spec: \<^verbatim>\<open>promiseTimeout(ms, promise)\<close> of \<^verbatim>\<open>./util\<close> is missing. The
  specification (4.5 step 5, and 5 on ties) says: run the deferred value against a timer
  of \<open>ms\<close> milliseconds; if the deferred value settles before the timer fires, the race
  settles as the deferred value does; if the timer fires first, the race fails with the
  timeout (the error that \<^verbatim>\<open>dispatch\<close> recognises by its code \<^verbatim>\<open>PROMISE_TIMEOUT\<close>); ties
  resolve in favor of the deferred value. A value that is not deferred takes part in the
  race as a deferred value that is already resolved to it.
\<close>

fun promiseTimeout :: "errorCodes \<Rightarrow> int \<Rightarrow> jsval \<Rightarrow> jsval future" where
  "promiseTimeout codes ms (JPromise (Resolves t v)) =
     (if t \<le> ms then Resolves t v else Rejects ms (timeout_error codes))"
| "promiseTimeout codes ms (JPromise (Rejects t e)) =
     (if t \<le> ms then Rejects t e else Rejects ms (timeout_error codes))"
| "promiseTimeout codes ms (JPromise Never) = Rejects ms (timeout_error codes)"
| "promiseTimeout codes ms v = Resolves 0 v"

text \<open>
  A Promise callback that returns the value \<open>v\<close> at time \<open>t\<close> settles its Promise as
  follows: a deferred \<open>v\<close> is adopted (the Promise settles as \<open>v\<close> does, not before
  \<open>t\<close>), any other value resolves it at once.
\<close>

fun adopt :: "int \<Rightarrow> jsval \<Rightarrow> jsval future" where
  "adopt t (JPromise (Resolves t' v)) = Resolves (max t t') v"
| "adopt t (JPromise (Rejects t' e)) = Rejects (max t t') e"
| "adopt t (JPromise Never) = Never"
| "adopt t v = Resolves t v"

text \<open>
  \<^verbatim>\<open>respond(message)\<close>, the closure that \<^verbatim>\<open>dispatch\<close> builds when the payload has a truthy
  \<^verbatim>\<open>response_url\<close>: it throws for a Promise (and on reading \<^verbatim>\<open>message.then\<close> of a nullish
  message), and posts the message to the URL otherwise. A post is recorded with its time.
\<close>

record post =
  post_time :: int
  post_url :: jsval
  post_body :: jsval

definition respond :: "jsval \<Rightarrow> int \<Rightarrow> jsval \<Rightarrow> error + post" where
  "respond url t message =
     (if is_nullish message then Inl (TypeError ''Cannot read properties of a nullish message'')
      else if is_thenable message then
        Inl (TypeError ''Cannot use a Promise as the parameter for respond()'')
      else Inr \<lparr>post_time = t, post_url = url, post_body = message\<rparr>)"

text \<open>
  \<^verbatim>\<open>callbackResult.then(respond).catch(...)\<close>: once the handler's deferred value resolves,
  the value goes to \<^verbatim>\<open>respond\<close>; a rejection, or a throw of \<^verbatim>\<open>respond\<close>, is logged and
  posts nothing.
\<close>

fun late_response :: "jsval \<Rightarrow> jsval \<Rightarrow> post list" where
  "late_response url (JPromise (Resolves t v)) =
     (case respond url t v of Inl _ \<Rightarrow> [] | Inr p \<Rightarrow> [p])"
| "late_response url _ = []"

text \<open>
  The callback given to \<^verbatim>\<open>.catch\<close> in \<^verbatim>\<open>dispatch\<close>, called at time \<open>t\<close> with the reason
  \<open>error\<close>: how the Promise \<^verbatim>\<open>contentConsideringTimeout\<close> settles, and the posts that the
  callback sets off. Reading \<^verbatim>\<open>error.code\<close> of a nullish reason throws, and so does
  calling \<^verbatim>\<open>callbackResult.then\<close> on a value without that method.
\<close>

definition on_rejected ::
  "errorCodes \<Rightarrow> adapter \<Rightarrow> obj \<Rightarrow> bool \<Rightarrow> jsval \<Rightarrow> int \<Rightarrow> jsval \<Rightarrow> jsval future \<times> post list"
where
  "on_rejected codes a payload has_respond callbackResult t error =
     (if is_nullish error then (Rejects t thrown_TypeError, [])
      else if strict_eq (js_member error ''code'') (JStr (PROMISE_TIMEOUT codes)) then
        (if \<not> lateResponseFallbackEnabled a \<or> \<not> has_respond \<or>
            strict_eq (js_get payload ''type'') (JStr ''dialog_submission'')
         then (adopt t callbackResult, [])
         else if is_thenable callbackResult then
           (Resolves t (JStr ''''), late_response (js_get payload ''response_url'') callbackResult)
         else (Rejects t thrown_TypeError, []))
      else (Resolves t (JStr ''An error occurred. Please report this to the app developer.''), []))"

text \<open>\<^verbatim>\<open>promiseTimeout(this.syncResponseTimeout, callbackResult).catch(...)\<close>\<close>

definition contentConsideringTimeout ::
  "errorCodes \<Rightarrow> adapter \<Rightarrow> obj \<Rightarrow> bool \<Rightarrow> jsval \<Rightarrow> jsval future \<times> post list"
where
  "contentConsideringTimeout codes a payload has_respond callbackResult =
     (case promiseTimeout codes (syncResponseTimeout a) callbackResult of
        Resolves t v \<Rightarrow> (Resolves t v, [])
      | Rejects t error \<Rightarrow> on_rejected codes a payload has_respond callbackResult t error
      | Never \<Rightarrow> (Never, []))"

subsection \<open>dispatch\<close>

text \<open>
  The result object has a \<^verbatim>\<open>status\<close> and may have a \<^verbatim>\<open>content\<close> (\<open>None\<close>: no such
  property). Besides the result, the model records the handlers that were called, in
  order, and the posts to the \<^verbatim>\<open>response_url\<close> that \<^verbatim>\<open>dispatch\<close> itself sets off.
\<close>

record dispatch_result =
  status :: int
  content :: "jsval option"

record dispatched =
  result :: dispatch_result
  called :: "handler list"
  posts :: "post list"

definition dispatch :: "errorCodes \<Rightarrow> adapter \<Rightarrow> obj \<Rightarrow> dispatched" where
  "dispatch codes a payload =
     (case matchCallback a payload of
        None \<Rightarrow>
          \<lparr>result = \<lparr>status = 200, content = Some (JStr '''')\<rparr>, called = [], posts = []\<rparr>
      | Some (_, callbackFn) \<Rightarrow>
          (let has_respond = js_truthy (js_get payload ''response_url'') in
           case callbackFn payload has_respond of
             Throws _ \<Rightarrow>
               \<lparr>result = \<lparr>status = 500, content = None\<rparr>, called = [callbackFn], posts = []\<rparr>
           | Returns callbackResult \<Rightarrow>
               (if js_truthy callbackResult then
                  (case contentConsideringTimeout codes a payload has_respond callbackResult of
                     (settles, sent) \<Rightarrow>
                       \<lparr>result = \<lparr>status = 200, content = Some (JPromise settles)\<rparr>,
                        called = [callbackFn], posts = sent\<rparr>)
                else
                  \<lparr>result = \<lparr>status = 200, content = Some (JStr '''')\<rparr>,
                   called = [callbackFn], posts = []\<rparr>)))"

subsection \<open>Registration\<close>

text \<open>
  The second argument of \<^verbatim>\<open>action\<close> and \<^verbatim>\<open>options\<close> is a function or some other value
  (lodash's \<^verbatim>\<open>isFunction\<close> tells them apart).
\<close>

datatype callback = Function handler | NotFunction jsval

definition formatMatchingConstraints :: "jsval \<Rightarrow> error + obj" where
  "formatMatchingConstraints matchingConstraints =
     (if is_nullish matchingConstraints then
        Inl (TypeError ''Callback ID cannot be undefined or null'')
      else case matchingConstraints of
        JObj ob \<Rightarrow> Inr ob
      | _ \<Rightarrow> Inr [(''callbackId'', matchingConstraints)])"

text \<open>The validators return an error or \<^verbatim>\<open>false\<close> (\<open>None\<close>).\<close>

definition validateConstraints :: "obj \<Rightarrow> error option" where
  "validateConstraints matchingConstraints =
     (if js_truthy (js_get matchingConstraints ''callbackId'') \<and>
         \<not> (isString (js_get matchingConstraints ''callbackId'') \<or>
            isRegExp (js_get matchingConstraints ''callbackId''))
      then Some (TypeError ''Callback ID must be a string or RegExp'')
      else None)"

definition validateActionConstraints :: "obj \<Rightarrow> error option" where
  "validateActionConstraints actionConstraints =
     (if js_truthy (js_get actionConstraints ''type'') \<and>
         \<not> (strict_eq (js_get actionConstraints ''type'') (JStr ''select'') \<or>
            strict_eq (js_get actionConstraints ''type'') (JStr ''button'') \<or>
            strict_eq (js_get actionConstraints ''type'') (JStr ''dialog_submission''))
      then Some (TypeError (''Type must be 'select', 'button', or 'dialog_submission'' @ [CHR 0x27]))
      else None)"

text \<open>
  The methods mutate the adapter and return it, or throw. The model returns the outcome
  (\<open>Inl\<close> the error thrown) together with the adapter as the call leaves it.
\<close>

definition registerCallback :: "adapter \<Rightarrow> obj \<Rightarrow> callback \<Rightarrow> (error + unit) \<times> adapter" where
  "registerCallback a constraints cb =
     (case cb of
        NotFunction _ \<Rightarrow> (Inl (TypeError ''callback must be a function''), a)
      | Function f \<Rightarrow> (Inr (), a\<lparr>callbacks := callbacks a @ [(constraints, f)]\<rparr>))"

definition action :: "adapter \<Rightarrow> jsval \<Rightarrow> callback \<Rightarrow> (error + unit) \<times> adapter" where
  "action a matchingConstraints cb =
     (case formatMatchingConstraints matchingConstraints of
        Inl e \<Rightarrow> (Inl e, a)
      | Inr actionConstraints \<Rightarrow>
          (case (case validateConstraints actionConstraints of
                   Some e \<Rightarrow> Some e
                 | None \<Rightarrow> validateActionConstraints actionConstraints) of
             Some e \<Rightarrow> (Inl e, a)
           | None \<Rightarrow> registerCallback a actionConstraints cb))"

definition options :: "adapter \<Rightarrow> jsval \<Rightarrow> callback \<Rightarrow> (error + unit) \<times> adapter" where
  "options a matchingConstraints cb =
     (case formatMatchingConstraints matchingConstraints of
        Inl e \<Rightarrow> (Inl e, a)
      | Inr optionsConstraints \<Rightarrow>
          (case validateConstraints optionsConstraints of
             Some e \<Rightarrow> (Inl e, a)
           | None \<Rightarrow> registerCallback a optionsConstraints cb))"

subsection \<open>Construction\<close>

text \<open>
  The constructor's second parameter is destructured with defaults:
  \<^verbatim>\<open>{ syncResponseTimeout = 2500, lateResponseFallbackEnabled = true } = {}\<close>. An omitted
  argument is the empty object, \<^verbatim>\<open>null\<close> cannot be destructured (a TypeError, before the
  body runs), and an object gives each property or, where it has none, the default.
  The properties have the types of the documentation: a number and a boolean.
\<close>

record options_object =
  opt_syncResponseTimeout :: "int option"
  opt_lateResponseFallbackEnabled :: "bool option"

datatype options_argument = Omitted | NullOptions | Options options_object

definition new_adapter :: "jsval \<Rightarrow> options_argument \<Rightarrow> error + adapter" where
  "new_adapter token opts =
     (case opts of
        NullOptions \<Rightarrow> Inl (TypeError ''Cannot destructure null'')
      | _ \<Rightarrow>
        (let ob = (case opts of Options ob \<Rightarrow> ob
                   | _ \<Rightarrow> \<lparr>opt_syncResponseTimeout = None,
                           opt_lateResponseFallbackEnabled = None\<rparr>);
             timeout = (case opt_syncResponseTimeout ob of None \<Rightarrow> 2500 | Some n \<Rightarrow> n);
             fallback = (case opt_lateResponseFallbackEnabled ob of None \<Rightarrow> True | Some b \<Rightarrow> b)
         in if \<not> isString token then
              Inl (TypeError ''SlackMessageAdapter needs a verification token'')
            else if timeout > 3000 \<or> timeout < 1 then
              Inl (TypeError ''syncResponseTimeout must be between 1 and 3000'')
            else
              Inr \<lparr>verificationToken = (case token of JStr s \<Rightarrow> s | _ \<Rightarrow> []),
                   syncResponseTimeout = timeout,
                   lateResponseFallbackEnabled = fallback, callbacks = []\<rparr>))"

section \<open>Vocabulary of the properties and example inputs\<close>

text \<open>
  A deferred value settles within \<open>ms\<close> milliseconds when it resolves or rejects no later
  than \<open>ms\<close> (a tie counts as settled in time, as in the race).
\<close>

fun settles_within :: "int \<Rightarrow> 'a future \<Rightarrow> bool" where
  "settles_within ms (Resolves t _) = (t \<le> ms)"
| "settles_within ms (Rejects t _) = (t \<le> ms)"
| "settles_within ms Never = False"

text \<open>Inputs at which the theorems below are evaluated.\<close>

definition example_codes :: errorCodes where
  "example_codes = \<lparr>PROMISE_TIMEOUT = ''SLACKMESSAGEUTIL_PROMISE_TIMEOUT''\<rparr>"

definition returning :: "jsval \<Rightarrow> handler" where
  "returning v payload has_respond = Returns v"

definition throwing :: "jsval \<Rightarrow> handler" where
  "throwing e payload has_respond = Throws e"

definition example_adapter :: "(obj \<times> handler) list \<Rightarrow> adapter" where
  "example_adapter entries =
     \<lparr>verificationToken = ''xoxb-token'', syncResponseTimeout = 2500,
      lateResponseFallbackEnabled = True, callbacks = entries\<rparr>"

definition picked_red :: jsval where
  "picked_red = JObj [(''text'', JStr ''picked red'')]"

definition hook_url :: jsval where
  "hook_url = JStr ''https://hooks.example/actions/1''"

definition pick_color_payload :: obj where
  "pick_color_payload = [(''callback_id'', JStr ''pick_color'')]"

definition pick_color_payload_with_url :: obj where
  "pick_color_payload_with_url =
     [(''callback_id'', JStr ''pick_color''), (''response_url'', hook_url)]"

definition dialog_payload_with_url :: obj where
  "dialog_payload_with_url =
     [(''type'', JStr ''dialog_submission''), (''callback_id'', JStr ''pick_color''),
      (''response_url'', hook_url)]"

definition pick_color :: obj where
  "pick_color = [(''callbackId'', JStr ''pick_color'')]"

definition timeout_coded_error :: jsval where
  "timeout_coded_error =
     JObj [(''message'', JStr ''upstream timed out''),
           (''code'', JStr ''SLACKMESSAGEUTIL_PROMISE_TIMEOUT'')]"

section \<open>Auxiliary facts\<close>

lemmas matching_defs =
  matchCallback_def matches_def callbackId_filter_def type_filter_def unfurl_filter_def
  first_action_def js_get_def js_in_def

lemmas example_defs =
  example_adapter_def example_codes_def returning_def throwing_def picked_red_def
  hook_url_def pick_color_payload_def pick_color_payload_with_url_def
  dialog_payload_with_url_def pick_color_def timeout_coded_error_def

lemma strict_eq_JStr: "strict_eq v (JStr s) = (v = JStr s)"
  by (cases v) auto

lemma matchCallback_None:
  assumes "\<forall>(constraints, callbackFn) \<in> set (callbacks a). \<not> matches constraints payload"
  shows "matchCallback a payload = None"
  using assms by (auto simp: matchCallback_def find_None_iff)

lemma matchCallback_least:
  assumes "i < length (callbacks a)"
    and "matches (fst (callbacks a ! i)) payload"
    and "\<forall>k<i. \<not> matches (fst (callbacks a ! k)) payload"
  shows "matchCallback a payload = Some (callbacks a ! i)"
  unfolding matchCallback_def find_Some_iff using assms
  by (auto simp: case_prod_beta intro!: exI[of _ i])

lemma matchCallback_single:
  "matches constraints payload \<Longrightarrow>
   matchCallback (example_adapter [(constraints, h)]) payload = Some (constraints, h)"
  by (simp add: matchCallback_def example_adapter_def)

lemma matches_pick_color:
  "matches pick_color pick_color_payload"
  "matches pick_color pick_color_payload_with_url"
  "matches pick_color dialog_payload_with_url"
  by (simp_all add: matching_defs example_defs)

section \<open>The properties\<close>

text \<open>
  C1. For every dispatch whose matched handler returns a deferred value that does not
  settle within \<^verbatim>\<open>syncResponseTimeout\<close> milliseconds: if \<^verbatim>\<open>lateResponseFallbackEnabled\<close> is
  true, the payload carried a \<^verbatim>\<open>response_url\<close> (so that \<^verbatim>\<open>respond\<close> exists: the property
  is truthy) and \<^verbatim>\<open>payload.type\<close> is not \<^verbatim>\<open>'dialog_submission'\<close>, the result has status 200
  and its content becomes the empty string when the timer fires, and the value that the
  handler's deferred value resolves to later goes to \<^verbatim>\<open>respond\<close>; otherwise the content
  is the handler's deferred value itself, settling as and when that settles, and nothing
  is posted.
\<close>

theorem dispatch_timeout:
  assumes "matchCallback a payload = Some (constraints, callbackFn)"
    and "callbackFn payload (js_truthy (js_get payload ''response_url'')) = Returns (JPromise f)"
    and "\<not> settles_within (syncResponseTimeout a) f"
  shows "result (dispatch codes a payload) =
    \<lparr>status = 200,
     content = Some (if lateResponseFallbackEnabled a \<and>
                        js_truthy (js_get payload ''response_url'') \<and>
                        js_get payload ''type'' \<noteq> JStr ''dialog_submission''
                     then JPromise (Resolves (syncResponseTimeout a) (JStr ''''))
                     else JPromise f)\<rparr> \<and>
    posts (dispatch codes a payload) =
      (if lateResponseFallbackEnabled a \<and>
          js_truthy (js_get payload ''response_url'') \<and>
          js_get payload ''type'' \<noteq> JStr ''dialog_submission''
       then late_response (js_get payload ''response_url'') (JPromise f) else [])"
  using assms
  by (cases f)
     (auto simp: dispatch_def contentConsideringTimeout_def on_rejected_def timeout_error_def
        js_get_def strict_eq_JStr max_def)

text \<open>
  The scenarios of the specification: the handler resolves after 3000 ms against a
  budget of 2500 ms. With a \<^verbatim>\<open>response_url\<close> the content is the empty string at 2500 ms
  and the value is posted at 3000 ms; for a dialog submission the content stays the
  handler's deferred value and nothing is posted.
\<close>

theorem dispatch_timeout_witness:
  "dispatch example_codes
     (example_adapter [(pick_color, returning (JPromise (Resolves 3000 picked_red)))])
     pick_color_payload_with_url =
   \<lparr>result = \<lparr>status = 200, content = Some (JPromise (Resolves 2500 (JStr '''')))\<rparr>,
    called = [returning (JPromise (Resolves 3000 picked_red))],
    posts = [\<lparr>post_time = 3000, post_url = hook_url, post_body = picked_red\<rparr>]\<rparr> \<and>
   dispatch example_codes
     (example_adapter [(pick_color, returning (JPromise (Resolves 3000 picked_red)))])
     dialog_payload_with_url =
   \<lparr>result = \<lparr>status = 200, content = Some (JPromise (Resolves 3000 picked_red))\<rparr>,
    called = [returning (JPromise (Resolves 3000 picked_red))],
    posts = []\<rparr>"
proof -
  let ?h = "returning (JPromise (Resolves 3000 picked_red))"
  let ?a = "example_adapter [(pick_color, ?h)]"
  have late: "\<not> settles_within (syncResponseTimeout ?a) (Resolves 3000 picked_red)"
    by (simp add: example_adapter_def)
  have m1: "matchCallback ?a pick_color_payload_with_url = Some (pick_color, ?h)"
    by (rule matchCallback_single) (rule matches_pick_color)
  have m2: "matchCallback ?a dialog_payload_with_url = Some (pick_color, ?h)"
    by (rule matchCallback_single) (rule matches_pick_color)
  have r1: "?h pick_color_payload_with_url
      (js_truthy (js_get pick_color_payload_with_url ''response_url'')) =
      Returns (JPromise (Resolves 3000 picked_red))"
    by (simp add: returning_def)
  have r2: "?h dialog_payload_with_url
      (js_truthy (js_get dialog_payload_with_url ''response_url'')) =
      Returns (JPromise (Resolves 3000 picked_red))"
    by (simp add: returning_def)
  have c1: "called (dispatch example_codes ?a pick_color_payload_with_url) = [?h]"
    using m1 by (simp add: dispatch_def returning_def split: prod.split)
  have c2: "called (dispatch example_codes ?a dialog_payload_with_url) = [?h]"
    using m2 by (simp add: dispatch_def returning_def split: prod.split)
  from dispatch_timeout [OF m1 r1 late, of example_codes]
  have d1: "result (dispatch example_codes ?a pick_color_payload_with_url) =
      \<lparr>status = 200, content = Some (JPromise (Resolves 2500 (JStr '''')))\<rparr> \<and>
    posts (dispatch example_codes ?a pick_color_payload_with_url) =
      [\<lparr>post_time = 3000, post_url = hook_url, post_body = picked_red\<rparr>]"
    by (simp add: example_defs js_get_def respond_def)
  from dispatch_timeout [OF m2 r2 late, of example_codes]
  have d2: "result (dispatch example_codes ?a dialog_payload_with_url) =
      \<lparr>status = 200, content = Some (JPromise (Resolves 3000 picked_red))\<rparr> \<and>
    posts (dispatch example_codes ?a dialog_payload_with_url) = []"
    by (simp add: example_defs js_get_def)
  show ?thesis
    using c1 c2 d1 d2 by (simp add: dispatched.equality)
qed

text \<open>
  C2, as the claim states it, fails: a handler that returns a concrete value is not
  always ignored. \<^verbatim>\<open>dispatch\<close> tests the returned value for truthiness only
  (\<^verbatim>\<open>if (callbackResult)\<close>), so a plain object returned by the handler enters the race and
  the content of the result is a deferred value, not the empty string.
\<close>

theorem dispatch_sync_value_counterexample:
  "matchCallback (example_adapter [(pick_color, returning picked_red)]) pick_color_payload =
     Some (pick_color, returning picked_red) \<and>
   returning picked_red pick_color_payload
     (js_truthy (js_get pick_color_payload ''response_url'')) = Returns picked_red \<and>
   \<not> is_thenable picked_red \<and>
   result (dispatch example_codes (example_adapter [(pick_color, returning picked_red)])
     pick_color_payload) =
     \<lparr>status = 200, content = Some (JPromise (Resolves 0 picked_red))\<rparr> \<and>
   result (dispatch example_codes (example_adapter [(pick_color, returning picked_red)])
     pick_color_payload) \<noteq> \<lparr>status = 200, content = Some (JStr '''')\<rparr>"
  by (simp add: dispatch_def contentConsideringTimeout_def matching_defs example_defs)

text \<open>
  C2, amended. For every dispatch in which the matched handler returns a concrete
  (non-deferred) value: a falsy value (\<^verbatim>\<open>undefined\<close>, \<^verbatim>\<open>null\<close>, \<^verbatim>\<open>false\<close>, \<^verbatim>\<open>0\<close>, \<^verbatim>\<open>''\<close>) is
  ignored and dispatch returns the default result \<^verbatim>\<open>{status: 200, content: ''}\<close>; a truthy
  value enters the content-delivery path as a deferred value does, and the result has
  status 200 and a content that is a deferred value resolved to the returned value. In
  both cases nothing is posted.
\<close>

theorem dispatch_sync_value:
  assumes "matchCallback a payload = Some (constraints, callbackFn)"
    and "callbackFn payload (js_truthy (js_get payload ''response_url'')) = Returns v"
    and "\<not> is_thenable v"
  shows "dispatch codes a payload =
    \<lparr>result = \<lparr>status = 200,
               content = Some (if js_truthy v then JPromise (Resolves 0 v) else JStr '''')\<rparr>,
     called = [callbackFn], posts = []\<rparr>"
  using assms
  by (cases v) (simp_all add: dispatch_def contentConsideringTimeout_def)

theorem dispatch_sync_value_witness:
  "dispatch example_codes (example_adapter [(pick_color, returning JUndefined)])
     pick_color_payload =
   \<lparr>result = \<lparr>status = 200, content = Some (JStr '''')\<rparr>,
    called = [returning JUndefined], posts = []\<rparr>"
proof -
  have m: "matchCallback (example_adapter [(pick_color, returning JUndefined)])
      pick_color_payload = Some (pick_color, returning JUndefined)"
    by (rule matchCallback_single) (rule matches_pick_color)
  have r: "returning JUndefined pick_color_payload
      (js_truthy (js_get pick_color_payload ''response_url'')) = Returns JUndefined"
    by (simp add: returning_def)
  have n: "\<not> is_thenable JUndefined" by simp
  from dispatch_sync_value [OF m r n, of example_codes] show ?thesis by simp
qed

text \<open>
  C3. For every payload for which no registered entry's constraints are satisfied,
  dispatch returns \<^verbatim>\<open>{status: 200, content: ''}\<close>, and it calls no handler (and posts
  nothing).
\<close>

theorem dispatch_no_match:
  assumes "\<forall>(constraints, callbackFn) \<in> set (callbacks a). \<not> matches constraints payload"
  shows "dispatch codes a payload =
    \<lparr>result = \<lparr>status = 200, content = Some (JStr '''')\<rparr>, called = [], posts = []\<rparr>"
  using matchCallback_None [OF assms] by (simp add: dispatch_def)

theorem dispatch_no_match_witness:
  "dispatch example_codes
     (example_adapter [(pick_color, returning picked_red)])
     [(''callback_id'', JStr ''pick_size'')] =
   \<lparr>result = \<lparr>status = 200, content = Some (JStr '''')\<rparr>, called = [], posts = []\<rparr>"
proof -
  have h: "\<forall>(constraints, callbackFn) \<in>
      set (callbacks (example_adapter [(pick_color, returning picked_red)])).
      \<not> matches constraints [(''callback_id'', JStr ''pick_size'')]"
    by (simp add: example_adapter_def pick_color_def matches_def callbackId_filter_def
        js_get_def)
  from dispatch_no_match [OF h] show ?thesis .
qed

text \<open>
  C4. For every dispatch in which the matched handler raises synchronously, dispatch
  returns \<^verbatim>\<open>{status: 500}\<close> with no content property, whatever the configured timeout is
  and whether or not the payload has a \<^verbatim>\<open>response_url\<close>.
\<close>

theorem dispatch_sync_throw:
  assumes "matchCallback a payload = Some (constraints, callbackFn)"
    and "callbackFn payload (js_truthy (js_get payload ''response_url'')) = Throws e"
  shows "result (dispatch codes a payload) = \<lparr>status = 500, content = None\<rparr>"
  using assms by (simp add: dispatch_def)

theorem dispatch_sync_throw_witness:
  "result (dispatch example_codes
     (example_adapter [(pick_color, throwing (JStr ''boom''))])
     pick_color_payload_with_url) = \<lparr>status = 500, content = None\<rparr>"
proof -
  have m: "matchCallback (example_adapter [(pick_color, throwing (JStr ''boom''))])
      pick_color_payload_with_url = Some (pick_color, throwing (JStr ''boom''))"
    by (rule matchCallback_single) (rule matches_pick_color)
  have t: "throwing (JStr ''boom'') pick_color_payload_with_url
      (js_truthy (js_get pick_color_payload_with_url ''response_url'')) = Throws (JStr ''boom'')"
    by (simp add: throwing_def)
  from dispatch_sync_throw [OF m t] show ?thesis .
qed

text \<open>
  C5. For every registry and every payload: the matcher returns the entry registered
  first among the entries whose constraints the payload satisfies (with two or more
  such entries, the earliest one), and dispatch calls that entry's handler and no
  other. Here \<open>i\<close> is the position of the first satisfied entry.
\<close>

theorem matchCallback_first:
  assumes "i < length (callbacks a)"
    and "matches (fst (callbacks a ! i)) payload"
    and "\<forall>k<i. \<not> matches (fst (callbacks a ! k)) payload"
  shows "matchCallback a payload = Some (callbacks a ! i) \<and>
         called (dispatch codes a payload) = [snd (callbacks a ! i)]"
proof -
  have m: "matchCallback a payload = Some (callbacks a ! i)"
    using assms by (rule matchCallback_least)
  obtain c h where ch: "callbacks a ! i = (c, h)"
    by (cases "callbacks a ! i")
  have "called (dispatch codes a payload) = [h]"
    using m ch
    by (simp add: dispatch_def Let_def split: completion.split prod.split)
  with m ch show ?thesis by simp
qed

text \<open>
  Three entries, of which the second and the third are satisfied: the second is
  returned and its handler is the one called.
\<close>

theorem matchCallback_first_witness:
  "matchCallback
     (example_adapter
        [([(''callbackId'', JStr ''pick_size'')], returning JUndefined),
         (pick_color, returning picked_red),
         ([], throwing JNull)])
     pick_color_payload = Some (pick_color, returning picked_red) \<and>
   called (dispatch example_codes
     (example_adapter
        [([(''callbackId'', JStr ''pick_size'')], returning JUndefined),
         (pick_color, returning picked_red),
         ([], throwing JNull)])
     pick_color_payload) = [returning picked_red] \<and>
   matches [] pick_color_payload"
  using matchCallback_first [of 1
     "example_adapter
        [([(''callbackId'', JStr ''pick_size'')], returning JUndefined),
         (pick_color, returning picked_red),
         ([], throwing JNull)]"
     pick_color_payload example_codes]
  by (simp add: example_adapter_def pick_color_def pick_color_payload_def matches_def
        callbackId_filter_def type_filter_def unfurl_filter_def first_action_def js_get_def
        js_in_def)

text \<open>
  C6, as the claim states it, fails: \<^verbatim>\<open>dispatch\<close> tells a timeout from a rejection of the
  handler only by \<^verbatim>\<open>error.code === utilErrorCodes.PROMISE_TIMEOUT\<close>. A handler whose deferred
  value rejects after 100 ms, well before the timer of 2500 ms, with a reason that carries
  this code is handled as a timeout: without a \<^verbatim>\<open>response_url\<close> the content is the
  handler's rejected value with the underlying error, not the generic string.
\<close>

theorem dispatch_rejected_in_time_counterexample:
  "matchCallback
     (example_adapter [(pick_color, returning (JPromise (Rejects 100 timeout_coded_error)))])
     pick_color_payload =
     Some (pick_color, returning (JPromise (Rejects 100 timeout_coded_error))) \<and>
   returning (JPromise (Rejects 100 timeout_coded_error)) pick_color_payload
     (js_truthy (js_get pick_color_payload ''response_url'')) =
     Returns (JPromise (Rejects 100 timeout_coded_error)) \<and>
   100 < syncResponseTimeout
     (example_adapter [(pick_color, returning (JPromise (Rejects 100 timeout_coded_error)))]) \<and>
   result (dispatch example_codes
     (example_adapter [(pick_color, returning (JPromise (Rejects 100 timeout_coded_error)))])
     pick_color_payload) =
     \<lparr>status = 200, content = Some (JPromise (Rejects 100 timeout_coded_error))\<rparr> \<and>
   result (dispatch example_codes
     (example_adapter [(pick_color, returning (JPromise (Rejects 100 timeout_coded_error)))])
     pick_color_payload) \<noteq>
     \<lparr>status = 200, content = Some (JPromise (Resolves 100
        (JStr ''An error occurred. Please report this to the app developer.'')))\<rparr>"
  by (simp add: dispatch_def contentConsideringTimeout_def on_rejected_def matching_defs
      example_defs)

text \<open>
  C6, amended. For every dispatch whose matched handler returns a deferred value that
  rejects before the timeout fires, with a reason that is neither \<^verbatim>\<open>null\<close> nor \<^verbatim>\<open>undefined\<close>
  and whose \<^verbatim>\<open>code\<close> property is not the timeout's error code, the result has status 200
  (never a 5xx status) and its content becomes the fixed generic error string, not the
  underlying error; nothing is posted.
\<close>

theorem dispatch_rejected_in_time:
  assumes "matchCallback a payload = Some (constraints, callbackFn)"
    and "callbackFn payload (js_truthy (js_get payload ''response_url'')) =
           Returns (JPromise (Rejects t e))"
    and "t \<le> syncResponseTimeout a"
    and "\<not> is_nullish e"
    and "js_member e ''code'' \<noteq> JStr (PROMISE_TIMEOUT codes)"
  shows "dispatch codes a payload =
    \<lparr>result = \<lparr>status = 200, content = Some (JPromise (Resolves t
        (JStr ''An error occurred. Please report this to the app developer.'')))\<rparr>,
     called = [callbackFn], posts = []\<rparr>"
  using assms
  by (simp add: dispatch_def contentConsideringTimeout_def on_rejected_def strict_eq_JStr)

theorem dispatch_rejected_in_time_witness:
  "dispatch example_codes
     (example_adapter
        [(pick_color, returning (JPromise (Rejects 100 (JObj [(''message'', JStr ''db down'')]))))])
     pick_color_payload_with_url =
   \<lparr>result = \<lparr>status = 200, content = Some (JPromise (Resolves 100
        (JStr ''An error occurred. Please report this to the app developer.'')))\<rparr>,
    called = [returning (JPromise (Rejects 100 (JObj [(''message'', JStr ''db down'')])))],
    posts = []\<rparr>"
proof -
  let ?e = "JObj [(''message'', JStr ''db down'')]"
  let ?h = "returning (JPromise (Rejects 100 ?e))"
  let ?a = "example_adapter [(pick_color, ?h)]"
  have m: "matchCallback ?a pick_color_payload_with_url = Some (pick_color, ?h)"
    by (rule matchCallback_single) (rule matches_pick_color)
  have r: "?h pick_color_payload_with_url
      (js_truthy (js_get pick_color_payload_with_url ''response_url'')) =
      Returns (JPromise (Rejects 100 ?e))"
    by (simp add: returning_def)
  have t: "100 \<le> syncResponseTimeout ?a"
    by (simp add: example_adapter_def)
  have n: "\<not> is_nullish ?e" by simp
  have c: "js_member ?e ''code'' \<noteq> JStr (PROMISE_TIMEOUT example_codes)"
    by (simp add: js_get_def)
  from dispatch_rejected_in_time [OF m r t n c] show ?thesis .
qed

text \<open>
  A rejection without a reason: a deferred value that rejects in time with \<^verbatim>\<open>undefined\<close>
  (as \<^verbatim>\<open>Promise.reject()\<close> gives) or \<^verbatim>\<open>null\<close> makes the \<^verbatim>\<open>.catch\<close> callback throw on
  reading \<^verbatim>\<open>error.code\<close>, so the content of the result is a deferred value that rejects
  with that TypeError, at status 200.
\<close>

lemma dispatch_rejected_without_reason:
  assumes "matchCallback a payload = Some (constraints, callbackFn)"
    and "callbackFn payload (js_truthy (js_get payload ''response_url'')) =
           Returns (JPromise (Rejects t e))"
    and "t \<le> syncResponseTimeout a"
    and "is_nullish e"
  shows "result (dispatch codes a payload) =
    \<lparr>status = 200, content = Some (JPromise (Rejects t thrown_TypeError))\<rparr>"
  using assms
  by (simp add: dispatch_def contentConsideringTimeout_def on_rejected_def)

lemma dispatch_rejected_without_reason_example:
  "result (dispatch example_codes
     (example_adapter [(pick_color, returning (JPromise (Rejects 100 JUndefined)))])
     pick_color_payload) =
   \<lparr>status = 200, content = Some (JPromise (Rejects 100 thrown_TypeError))\<rparr>"
proof -
  let ?h = "returning (JPromise (Rejects 100 JUndefined))"
  let ?a = "example_adapter [(pick_color, ?h)]"
  have m: "matchCallback ?a pick_color_payload = Some (pick_color, ?h)"
    by (rule matchCallback_single) (rule matches_pick_color)
  have r: "?h pick_color_payload (js_truthy (js_get pick_color_payload ''response_url'')) =
      Returns (JPromise (Rejects 100 JUndefined))"
    by (simp add: returning_def)
  have t: "100 \<le> syncResponseTimeout ?a"
    by (simp add: example_adapter_def)
  have n: "is_nullish JUndefined" by simp
  from dispatch_rejected_without_reason [OF m r t n] show ?thesis .
qed

text \<open>
  C7, as the claim states it, fails: \<^verbatim>\<open>validateActionConstraints\<close> checks the type only
  when it is truthy (\<^verbatim>\<open>actionConstraints.type && ...\<close>). The empty string is a type
  outside \<^verbatim>\<open>select\<close>, \<^verbatim>\<open>button\<close> and \<^verbatim>\<open>dialog_submission\<close>, and \<^verbatim>\<open>action({type: ''}, fn)\<close>
  succeeds and appends the entry.
\<close>

theorem action_invalid_type_counterexample:
  "js_get [(''type'', JStr '''')] ''type'' \<notin>
     {JStr ''select'', JStr ''button'', JStr ''dialog_submission''} \<and>
   action (example_adapter []) (JObj [(''type'', JStr '''')]) (Function (returning JUndefined)) =
     (Inr (), example_adapter [([(''type'', JStr '''')], returning JUndefined)])"
  by (simp add: action_def formatMatchingConstraints_def validateConstraints_def
      validateActionConstraints_def registerCallback_def js_get_def example_adapter_def)

text \<open>
  C7, amended. For every registration via \<^verbatim>\<open>action(...)\<close> whose constraints carry a truthy
  type (any value but \<^verbatim>\<open>undefined\<close>, \<^verbatim>\<open>null\<close>, \<^verbatim>\<open>false\<close>, \<^verbatim>\<open>0\<close> and \<^verbatim>\<open>''\<close>) outside
  \<^verbatim>\<open>select\<close>, \<^verbatim>\<open>button\<close> and \<^verbatim>\<open>dialog_submission\<close> (\<^verbatim>\<open>"menu"\<close>, for one), the call fails with
  a TypeError and the registry is left unchanged: no entry is appended before the
  failure, whatever the callback argument is.
\<close>

theorem action_invalid_type:
  assumes "js_truthy (js_get ob ''type'')"
    and "js_get ob ''type'' \<notin> {JStr ''select'', JStr ''button'', JStr ''dialog_submission''}"
  shows "\<exists>msg. action a (JObj ob) cb = (Inl (TypeError msg), a)"
  using assms
  by (auto simp: action_def formatMatchingConstraints_def validateConstraints_def
      validateActionConstraints_def strict_eq_JStr)

theorem action_invalid_type_witness:
  "\<exists>msg. action (example_adapter [(pick_color, returning picked_red)])
     (JObj [(''callbackId'', JStr ''pick_size''), (''type'', JStr ''menu'')])
     (Function (returning JUndefined)) =
     (Inl (TypeError msg), example_adapter [(pick_color, returning picked_red)])"
proof -
  have t: "js_truthy (js_get [(''callbackId'', JStr ''pick_size''), (''type'', JStr ''menu'')]
      ''type'')"
    by (simp add: js_get_def)
  have o: "js_get [(''callbackId'', JStr ''pick_size''), (''type'', JStr ''menu'')] ''type'' \<notin>
      {JStr ''select'', JStr ''button'', JStr ''dialog_submission''}"
    by (simp add: js_get_def)
  from action_invalid_type [OF t o] show ?thesis .
qed

text \<open>
  C8. For every constraint and payload: if the constraint has no \<^verbatim>\<open>unfurl\<close> property,
  the unfurl filter passes whatever \<^verbatim>\<open>payload.is_app_unfurl\<close> is; if it has one, the filter
  passes exactly when the truthiness of the constraint's \<^verbatim>\<open>unfurl\<close> agrees with the
  truthiness of \<^verbatim>\<open>payload.is_app_unfurl\<close>. The filter is one of the three conjuncts of a
  match.
\<close>

theorem unfurl_filter_parity:
  "(\<not> js_in ''unfurl'' constraints \<longrightarrow> unfurl_filter constraints payload) \<and>
   (js_in ''unfurl'' constraints \<longrightarrow>
      unfurl_filter constraints payload =
        (js_truthy (js_get constraints ''unfurl'') = js_truthy (js_get payload ''is_app_unfurl''))) \<and>
   matches constraints payload =
     (callbackId_filter constraints payload \<and> type_filter (first_action payload) constraints \<and>
      unfurl_filter constraints payload)"
  by (auto simp: unfurl_filter_def matches_def)

text \<open>
  A constraint with \<^verbatim>\<open>unfurl: false\<close> rejects a payload with \<^verbatim>\<open>is_app_unfurl: true\<close> and
  accepts one without the flag; a constraint without \<^verbatim>\<open>unfurl\<close> accepts both.
\<close>

theorem unfurl_filter_parity_witness:
  "js_in ''unfurl'' [(''unfurl'', JBool False)] \<and>
   \<not> unfurl_filter [(''unfurl'', JBool False)] [(''is_app_unfurl'', JBool True)] \<and>
   unfurl_filter [(''unfurl'', JBool False)] pick_color_payload \<and>
   \<not> js_in ''unfurl'' pick_color \<and>
   unfurl_filter pick_color [(''is_app_unfurl'', JBool True)] \<and>
   unfurl_filter pick_color pick_color_payload"
  using unfurl_filter_parity [of "[(''unfurl'', JBool False)]" "[(''is_app_unfurl'', JBool True)]"]
    unfurl_filter_parity [of "[(''unfurl'', JBool False)]" pick_color_payload]
    unfurl_filter_parity [of pick_color "[(''is_app_unfurl'', JBool True)]"]
    unfurl_filter_parity [of pick_color pick_color_payload]
  by (simp add: js_in_def js_get_def pick_color_def pick_color_payload_def)

text \<open>
  C9. For every payload, a constraint whose \<^verbatim>\<open>callbackId\<close> is the empty string passes the
  callbackId filter whatever \<^verbatim>\<open>payload.callback_id\<close> is, as a constraint without
  \<^verbatim>\<open>callbackId\<close> does: the matcher tests the property for truthiness. Such an entry can be
  registered (\<^verbatim>\<open>action('', fn)\<close> succeeds and appends \<^verbatim>\<open>{callbackId: ''}\<close>), and it matches
  every payload.
\<close>

theorem empty_callbackId:
  "(js_get constraints ''callbackId'' = JStr '''' \<longrightarrow> callbackId_filter constraints payload) \<and>
   (\<not> js_in ''callbackId'' constraints \<longrightarrow> callbackId_filter constraints payload) \<and>
   matches [(''callbackId'', JStr '''')] payload \<and>
   action a (JStr '''') (Function h) =
     (Inr (), a\<lparr>callbacks := callbacks a @ [([(''callbackId'', JStr '''')], h)]\<rparr>)"
  by (auto simp: callbackId_filter_def matches_def type_filter_def unfurl_filter_def js_get_def
      js_in_def action_def formatMatchingConstraints_def validateConstraints_def
      validateActionConstraints_def registerCallback_def split: option.splits)

theorem empty_callbackId_witness:
  "js_get [(''callbackId'', JStr ''''), (''type'', JStr ''button'')] ''callbackId'' = JStr '''' \<and>
   callbackId_filter [(''callbackId'', JStr ''''), (''type'', JStr ''button'')]
     pick_color_payload \<and>
   \<not> js_in ''callbackId'' [(''type'', JStr ''button'')] \<and>
   callbackId_filter [(''type'', JStr ''button'')] pick_color_payload \<and>
   matchCallback (snd (action (example_adapter []) (JStr '''') (Function (returning picked_red))))
     pick_color_payload = Some ([(''callbackId'', JStr '''')], returning picked_red)"
  using empty_callbackId [of "[(''callbackId'', JStr ''''), (''type'', JStr ''button'')]"
      pick_color_payload "example_adapter []" "returning picked_red"]
    empty_callbackId [of "[(''type'', JStr ''button'')]"
      pick_color_payload "example_adapter []" "returning picked_red"]
  by (simp add: js_get_def js_in_def matchCallback_def example_adapter_def)

text \<open>
  C10. For every options argument, constructing the adapter fails with a TypeError
  whenever the verification token is not a string; the token is validated before the
  timeout range is checked (with options that can be destructured, the error is the
  token's, whatever the timeout is); and a construction that succeeds stores the token
  and starts with an empty callback registry.
\<close>

theorem new_adapter_token:
  "(\<not> isString token \<longrightarrow> (\<exists>msg. new_adapter token opts = Inl (TypeError msg))) \<and>
   (\<not> isString token \<and> opts \<noteq> NullOptions \<longrightarrow>
      new_adapter token opts = Inl (TypeError ''SlackMessageAdapter needs a verification token'')) \<and>
   (new_adapter token opts = Inr a \<longrightarrow> token = JStr (verificationToken a) \<and> callbacks a = [])"
  by (cases opts; cases token)
     (auto simp: new_adapter_def Let_def split: if_splits option.splits)

text \<open>
  A number as the token together with a timeout of 5000 ms gives the token's error; a
  string with the default options gives an adapter with that token and no callbacks.
\<close>

theorem new_adapter_token_witness:
  "\<not> isString (JNum 42) \<and>
   new_adapter (JNum 42)
     (Options \<lparr>opt_syncResponseTimeout = Some 5000, opt_lateResponseFallbackEnabled = None\<rparr>) =
     Inl (TypeError ''SlackMessageAdapter needs a verification token'') \<and>
   new_adapter (JStr ''xoxb-token'') Omitted = Inr (example_adapter []) \<and>
   JStr ''xoxb-token'' = JStr (verificationToken (example_adapter [])) \<and>
   callbacks (example_adapter []) = []"
  using new_adapter_token [of "JNum 42"
      "Options \<lparr>opt_syncResponseTimeout = Some 5000, opt_lateResponseFallbackEnabled = None\<rparr>"]
    new_adapter_token [of "JStr ''xoxb-token''" Omitted "example_adapter []"]
  by (simp add: new_adapter_def example_adapter_def)

end
